theory Spec2Isabelle
  imports Complex_Main "HOL-Library.Product_Lexorder"
begin


section \<open>JavaScript strings\<close>

text \<open>
  Strings are Isabelle strings: one \<open>char\<close> stands for one UTF-16 code unit below
  256. Case mapping is the ASCII one (\<open>A\<close>..\<open>Z\<close> against \<open>a\<close>..\<open>z\<close>); every other
  character is left as it is. White space is what \<open>String.prototype.trim\<close> and the
  regular expression class \<open>\s\<close> accept in that range: TAB, LF, VT, FF, CR, SPACE
  and NBSP.
\<close>

definition isWhiteSpace :: "char \<Rightarrow> bool" where
  "isWhiteSpace c =
     (c = CHR 0x09 \<or> c = CHR 0x0A \<or> c = CHR 0x0B \<or> c = CHR 0x0C \<or> c = CHR 0x0D
      \<or> c = CHR 0x20 \<or> c = CHR 0xA0)"

definition isDigit :: "char \<Rightarrow> bool" where
  "isDigit c = (let n = (of_char c :: nat) in 48 \<le> n \<and> n \<le> 57)"

definition isUpper :: "char \<Rightarrow> bool" where
  "isUpper c = (let n = (of_char c :: nat) in 65 \<le> n \<and> n \<le> 90)"

definition isLower :: "char \<Rightarrow> bool" where
  "isLower c = (let n = (of_char c :: nat) in 97 \<le> n \<and> n \<le> 122)"

definition toLowerChar :: "char \<Rightarrow> char" where
  "toLowerChar c = (if isUpper c then char_of ((of_char c :: nat) + 32) else c)"

definition toUpperChar :: "char \<Rightarrow> char" where
  "toUpperChar c = (if isLower c then char_of ((of_char c :: nat) - 32) else c)"

definition toLowerCase :: "string \<Rightarrow> string" where
  "toLowerCase s = map toLowerChar s"

definition trim :: "string \<Rightarrow> string" where
  "trim s = rev (dropWhile isWhiteSpace (rev (dropWhile isWhiteSpace s)))"

fun startsWith :: "string \<Rightarrow> string \<Rightarrow> bool" where
  "startsWith s [] = True"
| "startsWith [] (p # ps) = False"
| "startsWith (c # cs) (p # ps) = (c = p \<and> startsWith cs ps)"

text \<open>\<open>s.includes(sub)\<close>: \<open>sub\<close> occurs in \<open>s\<close> as a contiguous substring.\<close>

fun includes_str :: "string \<Rightarrow> string \<Rightarrow> bool" where
  "includes_str [] sub = (sub = [])"
| "includes_str (c # cs) sub = (startsWith (c # cs) sub \<or> includes_str cs sub)"

text \<open>\<open>s.split(d)\<close> for a one-character separator; the empty string gives one empty piece.\<close>

fun splitOn :: "char \<Rightarrow> string \<Rightarrow> string list" where
  "splitOn d [] = [[]]"
| "splitOn d (c # cs) =
     (if c = d then [] # splitOn d cs
      else (case splitOn d cs of [] \<Rightarrow> [[c]] | w # ws \<Rightarrow> (c # w) # ws))"

fun joinWith :: "string \<Rightarrow> string list \<Rightarrow> string" where
  "joinWith sep [] = []"
| "joinWith sep [w] = w"
| "joinWith sep (w # v # ws) = w @ sep @ joinWith sep (v # ws)"

text \<open>\<open>s.replace(",", ".")\<close>: only the first occurrence is replaced.\<close>

fun replaceFirstChar :: "char \<Rightarrow> char \<Rightarrow> string \<Rightarrow> string" where
  "replaceFirstChar a b [] = []"
| "replaceFirstChar a b (c # cs) = (if c = a then b # cs else c # replaceFirstChar a b cs)"

text \<open>\<open>s.split("/").filter(Boolean)\<close>: the non-empty path segments.\<close>

definition pathParts :: "string \<Rightarrow> string list" where
  "pathParts s = filter (\<lambda>p. p \<noteq> []) (splitOn CHR ''/'' s)"

text \<open>\<open>word.charAt(0).toUpperCase() + word.slice(1)\<close>\<close>

fun capitalize :: "string \<Rightarrow> string" where
  "capitalize [] = []"
| "capitalize (c # cs) = toUpperChar c # cs"

text \<open>\<open>slug.split("-").map(capitalize).join(" ")\<close>\<close>

definition displayName :: "string \<Rightarrow> string" where
  "displayName slug = joinWith '' '' (map capitalize (splitOn CHR ''-'' slug))"

section \<open>JavaScript numbers\<close>

text \<open>
  A number is NaN, an infinity or a finite value, the finite ones taken as exact
  rationals (rounding to a double, overflow and underflow are not modelled; the code
  only compares numbers and subtracts two of them for the sign).
\<close>

datatype jsnum = NaN | Num rat | PosInfinity | NegInfinity

text \<open>Truthiness of a number: \<open>0\<close> and NaN are falsy.\<close>

fun truthyNum :: "jsnum \<Rightarrow> bool" where
  "truthyNum NaN = False"
| "truthyNum (Num r) = (r \<noteq> 0)"
| "truthyNum PosInfinity = True"
| "truthyNum NegInfinity = True"

definition digitVal :: "char \<Rightarrow> nat" where
  "digitVal c = (of_char c :: nat) - 48"

definition digitsVal :: "string \<Rightarrow> nat" where
  "digitsVal ds = foldl (\<lambda>acc c. 10 * acc + digitVal c) 0 ds"

text \<open>
  \<open>Number.parseInt(s, 10)\<close>: leading white space is skipped, an optional sign is read,
  then the longest run of decimal digits; no digit gives NaN (\<open>None\<close>).
\<close>

definition parseInt :: "string \<Rightarrow> int option" where
  "parseInt s =
     (let t = dropWhile isWhiteSpace s;
          neg = (case t of c # _ \<Rightarrow> c = CHR ''-'' | [] \<Rightarrow> False);
          u = (case t of c # cs \<Rightarrow> if c = CHR ''-'' \<or> c = CHR ''+'' then cs else t | [] \<Rightarrow> t);
          ds = takeWhile isDigit u
      in if ds = [] then None
         else Some (if neg then - int (digitsVal ds) else int (digitsVal ds)))"

text \<open>
  \<open>Number.parseFloat(s)\<close>: leading white space, an optional sign, then \<open>Infinity\<close> or the
  longest prefix that is a decimal literal (digits, an optional fraction, an optional
  exponent that has at least one digit).
\<close>

definition parseExponent :: "string \<Rightarrow> int" where
  "parseExponent s =
     (case s of
        [] \<Rightarrow> 0
      | e # r \<Rightarrow>
          if e = CHR ''e'' \<or> e = CHR ''E'' then
            (let neg = (case r of c # _ \<Rightarrow> c = CHR ''-'' | [] \<Rightarrow> False);
                 u = (case r of c # cs \<Rightarrow> if c = CHR ''-'' \<or> c = CHR ''+'' then cs else r
                      | [] \<Rightarrow> r);
                 ds = takeWhile isDigit u
             in if ds = [] then 0
                else if neg then - int (digitsVal ds) else int (digitsVal ds))
          else 0)"

definition pow10 :: "int \<Rightarrow> rat" where
  "pow10 e = (if 0 \<le> e then 10 ^ nat e else 1 / 10 ^ nat (- e))"

definition parseFloat :: "string \<Rightarrow> jsnum" where
  "parseFloat s =
     (let t = dropWhile isWhiteSpace s;
          neg = (case t of c # _ \<Rightarrow> c = CHR ''-'' | [] \<Rightarrow> False);
          u = (case t of c # cs \<Rightarrow> if c = CHR ''-'' \<or> c = CHR ''+'' then cs else t | [] \<Rightarrow> t)
      in if startsWith u ''Infinity'' then (if neg then NegInfinity else PosInfinity)
         else
           (let ip = takeWhile isDigit u;
                r1 = dropWhile isDigit u;
                hasDot = (case r1 of c # _ \<Rightarrow> c = CHR ''.'' | [] \<Rightarrow> False);
                fp = (if hasDot then takeWhile isDigit (tl r1) else []);
                r2 = (if hasDot then dropWhile isDigit (tl r1) else r1)
            in if ip = [] \<and> fp = [] then NaN
               else
                 (let m = (of_nat (digitsVal ip) :: rat)
                          + of_nat (digitsVal fp) / 10 ^ length fp;
                      v = m * pow10 (parseExponent r2)
                  in Num (if neg then - v else v))))"

section \<open>Regular expressions\<close>

text \<open>
  The regular expressions of the source are terms of \<open>regex\<close>, matched by backtracking
  in the priority order of ECMAScript: \<open>rmatch\<close> lists every way to match at the current
  position, the preferred one first. A match state is the rest of the input and the
  captured groups. An iteration of a star that consumes nothing is dropped, so the
  length of the rest bounds the number of iterations.
\<close>

datatype regex =
    RChar "char \<Rightarrow> bool"
  | REps
  | RSeq regex regex
  | RAlt regex regex
  | RStar regex
  | RStarLazy regex
  | RGroup nat regex
  | RBol
  | REol

type_synonym mstate = "string \<times> (nat \<times> string) list"

primrec starIter :: "(mstate \<Rightarrow> mstate list) \<Rightarrow> bool \<Rightarrow> nat \<Rightarrow> mstate \<Rightarrow> mstate list" where
  "starIter f greedy 0 st = [st]"
| "starIter f greedy (Suc k) st =
     (let more = concat (map (\<lambda>st'. if length (fst st') < length (fst st)
                                      then starIter f greedy k st' else []) (f st))
      in if greedy then more @ [st] else st # more)"

fun rmatch :: "nat \<Rightarrow> regex \<Rightarrow> mstate \<Rightarrow> mstate list" where
  "rmatch n (RChar p) st =
     (case fst st of [] \<Rightarrow> [] | c # cs \<Rightarrow> if p c then [(cs, snd st)] else [])"
| "rmatch n REps st = [st]"
| "rmatch n (RSeq a b) st = concat (map (rmatch n b) (rmatch n a st))"
| "rmatch n (RAlt a b) st = rmatch n a st @ rmatch n b st"
| "rmatch n (RStar r) st = starIter (rmatch n r) True (length (fst st)) st"
| "rmatch n (RStarLazy r) st = starIter (rmatch n r) False (length (fst st)) st"
| "rmatch n (RGroup k r) st =
     map (\<lambda>st'. (fst st', (k, take (length (fst st) - length (fst st')) (fst st)) # snd st'))
       (rmatch n r st)"
| "rmatch n RBol st = (if length (fst st) = n then [st] else [])"
| "rmatch n REol st = (if fst st = [] then [st] else [])"

text \<open>
  \<open>re.exec(s)\<close> without the global flag: the leftmost start position that has a match,
  with the preferred match there. The result is the start index, the length of the
  match and the groups.
\<close>

fun execAt :: "regex \<Rightarrow> string \<Rightarrow> nat \<Rightarrow> string \<Rightarrow> (nat \<times> nat \<times> (nat \<times> string) list) option" where
  "execAt re whole i rest =
     (case rmatch (length whole) re (rest, []) of
        (rest', caps) # _ \<Rightarrow> Some (i, length rest - length rest', caps)
      | [] \<Rightarrow> (case rest of [] \<Rightarrow> None | _ # cs \<Rightarrow> execAt re whole (Suc i) cs))"

definition regexExec :: "regex \<Rightarrow> string \<Rightarrow> (nat \<times> nat \<times> (nat \<times> string) list) option" where
  "regexExec re s = execAt re s 0 s"

definition regexTest :: "regex \<Rightarrow> string \<Rightarrow> bool" where
  "regexTest re s = (regexExec re s \<noteq> None)"

text \<open>The text of group \<open>k\<close> of a match (\<open>m[k]\<close>); empty when the group did not take part.\<close>

definition groupOf :: "nat \<Rightarrow> (nat \<times> string) list \<Rightarrow> string" where
  "groupOf k caps = (case map_of caps k of Some g \<Rightarrow> g | None \<Rightarrow> [])"

text \<open>\<open>s.replace(re, "")\<close> without the global flag: the first match is cut out.\<close>

definition regexRemoveFirst :: "regex \<Rightarrow> string \<Rightarrow> string" where
  "regexRemoveFirst re s =
     (case regexExec re s of
        None \<Rightarrow> s
      | Some (i, len, caps) \<Rightarrow> take i s @ drop (i + len) s)"

text \<open>Builders: a literal, the same under the \<open>i\<close> flag, classes, \<open>+\<close> and \<open>?\<close>.\<close>

fun rlit :: "string \<Rightarrow> regex" where
  "rlit [] = REps"
| "rlit (c # cs) = RSeq (RChar (\<lambda>x. x = c)) (rlit cs)"

fun rlitI :: "string \<Rightarrow> regex" where
  "rlitI [] = REps"
| "rlitI (c # cs) = RSeq (RChar (\<lambda>x. toLowerChar x = toLowerChar c)) (rlitI cs)"

definition rdigit :: regex where
  "rdigit = RChar isDigit"

definition rspace :: regex where
  "rspace = RChar isWhiteSpace"

definition rplus :: "regex \<Rightarrow> regex" where
  "rplus r = RSeq r (RStar r)"

definition ropt :: "regex \<Rightarrow> regex" where
  "ropt r = RAlt r REps"

section \<open>The search endpoint: reconstruction from the flat array\<close>

datatype error =
    CityNameRequired
  | SearchQueryRequired
  | SearchApiFailed nat string
  | SearchParseFailed
  | RankingFetchFailed nat string
  | RankingTableNotFound
  | NoRowsParsed
  | CityFetchFailed nat string
  | AqiCardNotFound

text \<open>
  What a \<open>fetch\<close> gives: a response that is not \<open>ok\<close> (status and status text), or
  the body. The network is a parameter of every function that calls it.
\<close>

datatype 'a fetched = NotOk nat string | Body 'a

text \<open>
  An entry of the parsed JSON array. The code looks only at strings, numbers and the
  two booleans; every other entry (null, an object, an array) is \<open>JOther\<close>.
\<close>

datatype jsval = JStr string | JNum rat | JBool bool | JOther

record IQAirCityRanking =
  rank :: int
  city :: string
  countrySlug :: string
  aqi :: rat
  url :: string

record IQAirSearchResult =
  sr_id :: string
  sr_name :: string
  sr_state :: string
  sr_country :: string
  sr_url :: string
  sr_aqi :: rat
  sr_estimated :: bool
  sr_latitude :: rat
  sr_longitude :: rat
  sr_followersCount :: rat

text \<open>\<open>data[k]\<close>; past the end JavaScript gives \<open>undefined\<close>, which is no string, number or boolean.\<close>

definition getAt :: "jsval list \<Rightarrow> nat \<Rightarrow> jsval" where
  "getAt data k = (if k < length data then data ! k else JOther)"

definition isAlnum :: "char \<Rightarrow> bool" where
  "isAlnum c = (isLower c \<or> isUpper c \<or> isDigit c)"

text \<open>\<open>/^[a-zA-Z0-9]{10,}$/.test(s)\<close>\<close>

definition isIdToken :: "string \<Rightarrow> bool" where
  "isIdToken s = (10 \<le> length s \<and> list_all isAlnum s)"

text \<open>The variables the backward loop assigns: id, aqi, estimated, latitude, longitude.\<close>

record nearby =
  nb_id :: string
  nb_aqi :: rat
  nb_estimated :: bool
  nb_latitude :: rat
  nb_longitude :: rat

definition nearby0 :: nearby where
  "nearby0 = \<lparr>nb_id = [], nb_aqi = 0, nb_estimated = False, nb_latitude = 0, nb_longitude = 0\<rparr>"

text \<open>One pass of the body of \<open>for (let j = Math.max(0, i - 30); j < i; j++)\<close>.\<close>

definition backStep :: "jsval list \<Rightarrow> nearby \<Rightarrow> nat \<Rightarrow> nearby" where
  "backStep data st j =
     (let prevItem = getAt data j;
          st1 = (case prevItem of
                   JStr s \<Rightarrow> if isIdToken s \<and> nb_id st = [] then st\<lparr>nb_id := s\<rparr> else st
                 | _ \<Rightarrow> st);
          st2 = (case prevItem of
                   JNum x \<Rightarrow>
                     if 0 < x \<and> x < 600 \<and> nb_aqi st1 = 0 then
                       (case getAt data (j + 1) of
                          JBool b \<Rightarrow> st1\<lparr>nb_aqi := x, nb_estimated := b\<rparr>
                        | _ \<Rightarrow> st1)
                     else st1
                 | _ \<Rightarrow> st1);
          st3 = (case prevItem of
                   JNum x \<Rightarrow>
                     if - 180 < x \<and> x < 180 then
                       (case getAt data (j + 1) of
                          JNum y \<Rightarrow>
                            if - 180 < y \<and> y < 180 then
                              (if - 90 < x \<and> x < 90 \<and> \<bar>x\<bar> > 1
                               then st2\<lparr>nb_latitude := x, nb_longitude := y\<rparr> else st2)
                            else st2
                        | _ \<Rightarrow> st2)
                     else st2
                 | _ \<Rightarrow> st2)
      in st3)"

definition searchBackwards :: "jsval list \<Rightarrow> nat \<Rightarrow> nearby" where
  "searchBackwards data i = foldl (backStep data) nearby0 [i - 30 ..< i]"

text \<open>
  \<open>for (let j = i + 1; j < Math.min(data.length, i + 20); j++)\<close>: the first number
  above 100 is the followers count, and the loop stops there.
\<close>

definition isFollowers :: "jsval \<Rightarrow> bool" where
  "isFollowers v = (case v of JNum x \<Rightarrow> 100 < x | _ \<Rightarrow> False)"

definition searchForwards :: "jsval list \<Rightarrow> nat \<Rightarrow> rat" where
  "searchForwards data i =
     (case find isFollowers (map (getAt data) [i + 1 ..< min (length data) (i + 20)]) of
        Some (JNum x) \<Rightarrow> x
      | _ \<Rightarrow> 0)"

text \<open>
  The test on \<open>data[i]\<close> that makes it the URL of a record, and the record built
  there. \<open>recordAt\<close> is applied only where the test holds, so \<open>parts\<close> has two or
  three entries.
\<close>

definition isCityUrl :: "string \<Rightarrow> bool" where
  "isCityUrl item =
     (startsWith item ''/'' \<and> \<not> includes_str item ''.''
      \<and> 2 \<le> length (pathParts item) \<and> length (pathParts item) \<le> 3)"

definition recordAt :: "jsval list \<Rightarrow> nat \<Rightarrow> string \<Rightarrow> IQAirSearchResult" where
  "recordAt data i item =
     (let parts = pathParts item;
          citySlug = last parts;
          countrySlug = hd parts;
          stateSlug = (if length parts = 3 then parts ! 1 else []);
          nb = searchBackwards data i
      in \<lparr>sr_id = nb_id nb,
          sr_name = displayName citySlug,
          sr_state = displayName stateSlug,
          sr_country = displayName countrySlug,
          sr_url = item,
          sr_aqi = nb_aqi nb,
          sr_estimated = nb_estimated nb,
          sr_latitude = nb_latitude nb,
          sr_longitude = nb_longitude nb,
          sr_followersCount = searchForwards data i\<rparr>)"

text \<open>
  One pass of the outer loop: the state is \<open>seenUrls\<close> (as the list of the URLs seen)
  and \<open>results\<close>.
\<close>

definition scanStep ::
  "jsval list \<Rightarrow> string list \<times> IQAirSearchResult list \<Rightarrow> nat
     \<Rightarrow> string list \<times> IQAirSearchResult list" where
  "scanStep data acc i =
     (case getAt data i of
        JStr item \<Rightarrow>
          if isCityUrl item \<and> item \<notin> set (fst acc)
          then (item # fst acc, snd acc @ [recordAt data i item])
          else acc
      | _ \<Rightarrow> acc)"

definition collectResults :: "jsval list \<Rightarrow> IQAirSearchResult list" where
  "collectResults data = snd (foldl (scanStep data) ([], []) [0 ..< length data])"

text \<open>
  The comparator of \<open>results.sort\<close>; only the sign of its result matters, so it is
  returned as a rational.
\<close>

definition urlPartCount :: "string \<Rightarrow> nat" where
  "urlPartCount u = length (pathParts u)"

definition compareResults :: "IQAirSearchResult \<Rightarrow> IQAirSearchResult \<Rightarrow> rat" where
  "compareResults a b =
     (let aParts = urlPartCount (sr_url a); bParts = urlPartCount (sr_url b)
      in if aParts = 3 \<and> bParts = 2 then - 1
         else if aParts = 2 \<and> bParts = 3 then 1
         else sr_followersCount b - sr_followersCount a)"

text \<open>
  \<open>Array.prototype.sort\<close> is stable and, for a comparator that is a consistent order,
  its result is the one stable sorted arrangement; insertion from the right computes it.
\<close>

fun insertBy :: "('a \<Rightarrow> 'a \<Rightarrow> rat) \<Rightarrow> 'a \<Rightarrow> 'a list \<Rightarrow> 'a list" where
  "insertBy cmp x [] = [x]"
| "insertBy cmp x (y # ys) = (if cmp x y \<le> 0 then x # y # ys else y # insertBy cmp x ys)"

definition sortBy :: "('a \<Rightarrow> 'a \<Rightarrow> rat) \<Rightarrow> 'a list \<Rightarrow> 'a list" where
  "sortBy cmp xs = foldr (insertBy cmp) xs []"

definition parseIQAirSearchResponseSimple :: "jsval list \<Rightarrow> IQAirSearchResult list" where
  "parseIQAirSearchResponseSimple data = sortBy compareResults (collectResults data)"

text \<open>
  \<open>searchIQAirCities\<close>: the request goes out with the trimmed query; \<open>fetchSearch\<close>
  answers with a response that is not \<open>ok\<close>, or with a body that \<open>JSON.parse\<close> turns
  into an array (\<open>Some\<close>) or rejects (\<open>None\<close>).
\<close>

definition searchIQAirCities ::
  "(string \<Rightarrow> jsval list option fetched) \<Rightarrow> string \<Rightarrow> error + IQAirSearchResult list" where
  "searchIQAirCities fetchSearch query =
     (let normalizedQuery = trim query
      in if normalizedQuery = [] then Inl SearchQueryRequired
         else (case fetchSearch normalizedQuery of
                 NotOk status statusText \<Rightarrow> Inl (SearchApiFailed status statusText)
               | Body None \<Rightarrow> Inl SearchParseFailed
               | Body (Some data) \<Rightarrow> Inr (parseIQAirSearchResponseSimple data)))"

section \<open>The city resolver\<close>

text \<open>\<open>/\s+(city|town)$/\<close>\<close>

definition suffixRegex :: regex where
  "suffixRegex = RSeq (rplus rspace) (RSeq (RGroup 1 (RAlt (rlit ''city'') (rlit ''town''))) REol)"

text \<open>\<open>s.replace(/\s+/g, "-")\<close>: every run of white space becomes one hyphen.\<close>

fun hyphenateFrom :: "bool \<Rightarrow> string \<Rightarrow> string" where
  "hyphenateFrom inRun [] = []"
| "hyphenateFrom inRun (c # cs) =
     (if isWhiteSpace c
      then (if inRun then hyphenateFrom True cs else CHR ''-'' # hyphenateFrom True cs)
      else c # hyphenateFrom False cs)"

definition hyphenate :: "string \<Rightarrow> string" where
  "hyphenate s = hyphenateFrom False s"

text \<open>The chain of \<open>find\<close> calls of \<open>fetchIQAirCityByName\<close>, each made only while nothing is found.\<close>

definition findBestMatch :: "string \<Rightarrow> IQAirSearchResult list \<Rightarrow> IQAirSearchResult option" where
  "findBestMatch normalizedQuery searchResults =
     (let found = find (\<lambda>c. toLowerCase (sr_name c) = normalizedQuery
                            \<and> urlPartCount (sr_url c) = 3) searchResults;
          found = (if found = None
                   then find (\<lambda>c. toLowerCase (sr_name c) = normalizedQuery) searchResults
                   else found);
          found = (if found = None
                   then find (\<lambda>c. includes_str (toLowerCase (sr_name c)) normalizedQuery
                                  \<and> urlPartCount (sr_url c) = 3) searchResults
                   else found);
          found = (if found = None
                   then find (\<lambda>c. includes_str (toLowerCase (sr_name c)) normalizedQuery)
                          searchResults
                   else found);
          found = (if found = None
                   then find (\<lambda>c. includes_str normalizedQuery (toLowerCase (sr_name c))
                                  \<and> urlPartCount (sr_url c) = 3) searchResults
                   else found);
          found = (if found = None
                   then find (\<lambda>c. includes_str normalizedQuery (toLowerCase (sr_name c)))
                          searchResults
                   else found);
          found = (if found = None
                   then (let queryNoSuffix = regexRemoveFirst suffixRegex normalizedQuery
                         in find (\<lambda>c. (toLowerCase (sr_name c) = queryNoSuffix
                                         \<or> includes_str (toLowerCase (sr_name c)) queryNoSuffix)
                                        \<and> urlPartCount (sr_url c) = 3) searchResults)
                   else found);
          found = (if found = None
                   then (let queryNoSuffix = regexRemoveFirst suffixRegex normalizedQuery
                         in find (\<lambda>c. toLowerCase (sr_name c) = queryNoSuffix
                                        \<or> includes_str (toLowerCase (sr_name c)) queryNoSuffix)
                              searchResults)
                   else found);
          found = (if found = None
                   then (case searchResults of [] \<Rightarrow> None | c # _ \<Rightarrow> Some c)
                   else found)
      in found)"

text \<open>The conversion of the chosen result to \<open>IQAirCityRanking\<close>.\<close>

definition toCityRanking :: "IQAirSearchResult \<Rightarrow> IQAirCityRanking" where
  "toCityRanking found =
     \<lparr>rank = 0,
      city = sr_name found,
      countrySlug = hyphenate (toLowerCase (sr_country found)),
      aqi = sr_aqi found,
      url = (if startsWith (sr_url found) ''http'' then sr_url found
             else ''https://www.iqair.com/us'' @ sr_url found)\<rparr>"

definition fetchIQAirCityByName ::
  "(string \<Rightarrow> jsval list option fetched) \<Rightarrow> string \<Rightarrow> error + IQAirCityRanking option" where
  "fetchIQAirCityByName fetchSearch cityName =
     (let normalizedQuery = toLowerCase (trim cityName)
      in if normalizedQuery = [] then Inl CityNameRequired
         else (case searchIQAirCities fetchSearch cityName of
                 Inl e \<Rightarrow> Inl e
               | Inr searchResults \<Rightarrow>
                   if searchResults = [] then Inr None
                   else (case findBestMatch normalizedQuery searchResults of
                           None \<Rightarrow> Inr None
                         | Some found \<Rightarrow> Inr (Some (toCityRanking found)))))"

section \<open>Parsed HTML\<close>

text \<open>
  The document \<open>cheerio.load\<close> builds is a tree of elements (tag name in lower case,
  attributes, children) and text nodes. The document itself is the root element; a
  selector never matches it. Selections are lists of nodes in document order.
\<close>

datatype node = Text string | Element string "(string \<times> string) list" "node list"

text \<open>\<open>.text()\<close>: the text nodes below a node, concatenated.\<close>

fun textOf :: "node \<Rightarrow> string" where
  "textOf (Text s) = s"
| "textOf (Element t as cs) = concat (map textOf cs)"

text \<open>Every node strictly below a node, in document order.\<close>

fun descendants :: "node \<Rightarrow> node list" where
  "descendants (Text s) = []"
| "descendants (Element t as cs) = concat (map (\<lambda>c. c # descendants c) cs)"

fun isTag :: "string \<Rightarrow> node \<Rightarrow> bool" where
  "isTag name (Text s) = False"
| "isTag name (Element t as cs) = (t = name)"

text \<open>\<open>.attr(name)\<close>; \<open>None\<close> is \<open>undefined\<close>.\<close>

fun attr :: "string \<Rightarrow> node \<Rightarrow> string option" where
  "attr name (Text s) = None"
| "attr name (Element t as cs) = map_of as name"

text \<open>
  Splitting at every maximal run of separator characters: \<open>s.split(/\s+/)\<close> for the
  white space of JavaScript, and the tokens of a class attribute for the white space
  of HTML (TAB, LF, FF, CR, SPACE).
\<close>

fun splitRunsFrom :: "(char \<Rightarrow> bool) \<Rightarrow> string \<Rightarrow> bool \<Rightarrow> string \<Rightarrow> string list" where
  "splitRunsFrom sep cur inRun [] = [rev cur]"
| "splitRunsFrom sep cur inRun (c # cs) =
     (if sep c
      then (if inRun then splitRunsFrom sep cur True cs
            else rev cur # splitRunsFrom sep [] True cs)
      else splitRunsFrom sep (c # cur) False cs)"

definition splitWs :: "string \<Rightarrow> string list" where
  "splitWs s = splitRunsFrom isWhiteSpace [] False s"

definition isHtmlSpace :: "char \<Rightarrow> bool" where
  "isHtmlSpace c =
     (c = CHR 0x09 \<or> c = CHR 0x0A \<or> c = CHR 0x0C \<or> c = CHR 0x0D \<or> c = CHR 0x20)"

text \<open>The class selector \<open>.cls\<close>: the class attribute has the token.\<close>

definition hasClass :: "string \<Rightarrow> node \<Rightarrow> bool" where
  "hasClass cls n =
     (case attr ''class'' n of
        None \<Rightarrow> False
      | Some v \<Rightarrow> cls \<in> set (splitRunsFrom isHtmlSpace [] False v))"

text \<open>\<open>.find(sel)\<close> for a selector that tests one element.\<close>

definition findAll :: "(node \<Rightarrow> bool) \<Rightarrow> node \<Rightarrow> node list" where
  "findAll p n = filter p (descendants n)"

text \<open>
  \<open>.find("a b")\<close> and, for a selection of several elements, \<open>sel.find("b c")\<close> read as
  one chain from the document: the nodes matching the last test that lie below nodes
  matching the tests before it, each below the other. A node is listed once, in
  document order, also when the elements of the selection are nested.
\<close>

fun advance :: "(node \<Rightarrow> bool) list \<Rightarrow> node \<Rightarrow> (node \<Rightarrow> bool) list" where
  "advance (p # q # ps) c = (if p c then q # ps else p # q # ps)"
| "advance ps c = ps"

fun emits :: "(node \<Rightarrow> bool) list \<Rightarrow> node \<Rightarrow> bool" where
  "emits [p] c = p c"
| "emits ps c = False"

fun findChain :: "(node \<Rightarrow> bool) list \<Rightarrow> node \<Rightarrow> node list" where
  "findChain ps (Text s) = []"
| "findChain ps (Element t as cs) =
     concat (map (\<lambda>c. (if emits ps c then [c] else []) @ findChain (advance ps c) c) cs)"

text \<open>\<open>sel.first().text().trim()\<close>; the empty selection has the empty text.\<close>

definition firstText :: "node list \<Rightarrow> string" where
  "firstText sel = (case sel of [] \<Rightarrow> [] | n # _ \<Rightarrow> trim (textOf n))"

section \<open>The ranking table\<close>

text \<open>
  The texts of the \<open>th\<close> cells of the first \<open>thead tr\<close> of a table, and the test of
  the \<open>filter\<close> callback: \<open>headers[1]?.includes("Cities") && headers[2]?.includes("AQI")\<close>.
\<close>

definition headerTexts :: "node \<Rightarrow> string list" where
  "headerTexts el =
     (case findChain [isTag ''thead'', isTag ''tr''] el of
        [] \<Rightarrow> []
      | tr # _ \<Rightarrow> map (\<lambda>th. trim (textOf th)) (findAll (isTag ''th'') tr))"

definition isRankingTable :: "node \<Rightarrow> bool" where
  "isRankingTable el =
     (case headerTexts el of
        h0 # h1 # h2 # _ \<Rightarrow> includes_str h1 ''Cities'' \<and> includes_str h2 ''AQI''
      | _ \<Rightarrow> False)"

text \<open>The pieces of a body row the callback of \<open>rows.each\<close> reads.\<close>

definition rowCity :: "node \<Rightarrow> string" where
  "rowCity row =
     (case findAll (isTag ''td'') row of
        cityCell # _ \<Rightarrow> firstText (findAll (isTag ''p'') cityCell)
      | [] \<Rightarrow> [])"

definition rowAqiText :: "node \<Rightarrow> string" where
  "rowAqiText row =
     (case findAll (isTag ''td'') row of
        cityCell # aqiCell # _ \<Rightarrow> firstText (findAll (isTag ''p'') aqiCell)
      | _ \<Rightarrow> [])"

definition rowHref :: "node \<Rightarrow> string" where
  "rowHref row =
     (case rev (findAll (\<lambda>n. isTag ''a'' n \<and> attr ''href'' n \<noteq> None) row) of
        [] \<Rightarrow> []
      | a # _ \<Rightarrow> (case attr ''href'' a of Some h \<Rightarrow> h | None \<Rightarrow> []))"

text \<open>
  One row. \<open>pathnameOf\<close> stands for \<open>new URL(url).pathname\<close> of the platform, \<open>None\<close>
  where the constructor throws. The result is \<open>None\<close> where the callback returns
  without a push.
\<close>

definition parseRankingRow ::
  "(string \<Rightarrow> string option) \<Rightarrow> nat \<Rightarrow> node \<Rightarrow> IQAirCityRanking option" where
  "parseRankingRow pathnameOf index row =
     (let thRank = firstText (findAll (isTag ''th'') row);
          tds = findAll (isTag ''td'') row
      in if length tds < 2 then None
         else
           (let city = rowCity row;
                aqiText = rowAqiText row;
                aqi = parseInt aqiText;
                href = rowHref row;
                url = (if startsWith href ''http'' then href else ''https://www.iqair.com'' @ href);
                countrySlug =
                  (case pathnameOf url of
                     None \<Rightarrow> []
                   | Some pathname \<Rightarrow>
                       (let parts = pathParts pathname
                        in if 2 \<le> length parts then parts ! 1 else []))
            in case aqi of
                 None \<Rightarrow> None
               | Some a \<Rightarrow>
                   if city = [] then None
                   else Some \<lparr>rank = (case parseInt thRank of
                                        Some r \<Rightarrow> if r \<noteq> 0 then r else int index + 1
                                      | None \<Rightarrow> int index + 1),
                              city = city,
                              countrySlug = countrySlug,
                              aqi = of_int a,
                              url = url\<rparr>))"

text \<open>
  \<open>rows.each((index, row) => ...)\<close>: the loop stops (\<open>return false\<close>) once \<open>result\<close> has
  \<open>limit\<close> entries.
\<close>

fun rankingLoop ::
  "(string \<Rightarrow> string option) \<Rightarrow> int \<Rightarrow> nat \<Rightarrow> node list \<Rightarrow> IQAirCityRanking list
     \<Rightarrow> IQAirCityRanking list" where
  "rankingLoop pathnameOf limit index [] result = result"
| "rankingLoop pathnameOf limit index (row # rows) result =
     (if limit \<le> int (length result) then result
      else (case parseRankingRow pathnameOf index row of
              None \<Rightarrow> rankingLoop pathnameOf limit (Suc index) rows result
            | Some r \<Rightarrow> rankingLoop pathnameOf limit (Suc index) rows (result @ [r])))"

text \<open>
  \<open>fetchIQAirTopCities(limit)\<close>; \<open>page\<close> is what the request for the ranking page gave,
  the body already parsed.
\<close>

definition fetchIQAirTopCities ::
  "(string \<Rightarrow> string option) \<Rightarrow> node fetched \<Rightarrow> int \<Rightarrow> error + IQAirCityRanking list" where
  "fetchIQAirTopCities pathnameOf page limit =
     (case page of
        NotOk status statusText \<Rightarrow> Inl (RankingFetchFailed status statusText)
      | Body doc \<Rightarrow>
          (case filter isRankingTable (findAll (isTag ''table'') doc) of
             [] \<Rightarrow> Inl RankingTableNotFound
           | table # _ \<Rightarrow>
               (let rows = findChain [isTag ''tbody'', isTag ''tr''] table;
                    result = rankingLoop pathnameOf limit 0 rows []
                in if result = [] then Inl NoRowsParsed else Inr result)))"

section \<open>The city page\<close>

record IQAirPollutant =
  p_name :: string
  p_description :: string
  p_value :: jsnum
  p_unit :: string

record MainPollutant =
  mp_name :: string
  mp_value :: jsnum
  mp_unit :: string

record IQAirCityDetails = IQAirCityRanking +
  level :: string
  mainPollutant :: MainPollutant
  pollutants :: "IQAirPollutant list"

text \<open>The unit \<open>\<mu>g/m\<^sup>3\<close> as the source writes it: U+00B5, \<open>g/m\<close>, U+00B3.\<close>

definition microgram :: string where
  "microgram = [CHR 0xB5, CHR ''g'']"

definition defaultUnit :: string where
  "defaultUnit = microgram @ ''/m'' @ [CHR 0xB3]"

text \<open>The callback that finds the main AQI box among the \<open>div\<close> elements.\<close>

definition isAqiCard :: "node \<Rightarrow> bool" where
  "isAqiCard el =
     (isTag ''div'' el
      \<and> (let cls = (case attr ''class'' el of Some v \<Rightarrow> v | None \<Rightarrow> [])
         in includes_str cls ''aqi-box-shadow'' \<or> includes_str cls ''aqi-bg-''))"

subsection \<open>The AQI value\<close>

text \<open>The test both strategies apply to the text of a \<open>p\<close>: an integer in \<open>(0, 500]\<close>.\<close>

definition plausibleAqi :: "node \<Rightarrow> int option" where
  "plausibleAqi el =
     (case parseInt (trim (textOf el)) of
        Some num \<Rightarrow> if 0 < num \<and> num \<le> 500 then Some num else None
      | None \<Rightarrow> None)"

definition isAqiLabel :: "node \<Rightarrow> bool" where
  "isAqiLabel el =
     (isTag ''div'' el
      \<and> (includes_str (textOf el) ''AQI'' \<or> includes_str (textOf el) ''US AQI''))"

text \<open>\<open>/(?:AQI|US AQI)[\s:]*(\d{1,3})/i\<close>\<close>

definition aqiRegex :: regex where
  "aqiRegex =
     RSeq (RAlt (rlitI ''AQI'') (rlitI ''US AQI''))
       (RSeq (RStar (RChar (\<lambda>c. isWhiteSpace c \<or> c = CHR '':'')))
          (RGroup 1 (RSeq rdigit (ropt (RSeq rdigit (ropt rdigit))))))"

text \<open>
  The three blocks that assign \<open>aqi\<close>, in the order of the source; \<open>aqi\<close> starts as
  \<open>baseInfo.aqi || 0\<close>.
\<close>

definition aqiAfterLabel :: "node \<Rightarrow> rat \<Rightarrow> rat" where
  "aqiAfterLabel aqiCard current =
     (case findAll isAqiLabel aqiCard of
        [] \<Rightarrow> current
      | aqiLabelDiv # _ \<Rightarrow>
          (let aqiText = firstText (filter (\<lambda>el. plausibleAqi el \<noteq> None)
                                      (findAll (isTag ''p'') aqiLabelDiv))
           in if aqiText \<noteq> []
              then (case parseInt aqiText of Some parsedAqi \<Rightarrow> of_int parsedAqi | None \<Rightarrow> current)
              else current))"

definition aqiAfterNumbers :: "node \<Rightarrow> rat \<Rightarrow> rat" where
  "aqiAfterNumbers aqiCard current =
     (if current = 0
      then (case List.map_filter plausibleAqi (findAll (isTag ''p'') aqiCard) of
              [] \<Rightarrow> current
            | n # ns \<Rightarrow> of_int (fold max ns n))
      else current)"

definition aqiAfterRegex :: "node \<Rightarrow> rat \<Rightarrow> rat" where
  "aqiAfterRegex aqiCard current =
     (if current = 0
      then (case regexExec aqiRegex (textOf aqiCard) of
              None \<Rightarrow> current
            | Some (i, len, caps) \<Rightarrow>
                (case parseInt (groupOf 1 caps) of
                   Some parsedAqi \<Rightarrow> of_int parsedAqi
                 | None \<Rightarrow> current))
      else current)"

definition extractAqi :: "node \<Rightarrow> rat \<Rightarrow> rat" where
  "extractAqi aqiCard baseAqi =
     (let aqi = (if baseAqi \<noteq> 0 then baseAqi else 0);
          aqi = aqiAfterLabel aqiCard aqi;
          aqi = aqiAfterNumbers aqiCard aqi;
          aqi = aqiAfterRegex aqiCard aqi
      in aqi)"

subsection \<open>The level\<close>

definition isLevelText :: "node \<Rightarrow> bool" where
  "isLevelText el =
     (isTag ''p'' el
      \<and> (let levelLower = toLowerCase (trim (textOf el))
         in includes_str levelLower ''good'' \<or> includes_str levelLower ''moderate''
            \<or> includes_str levelLower ''unhealthy'' \<or> includes_str levelLower ''hazardous''
            \<or> includes_str levelLower ''sensitive''))"

definition extractLevel :: "node \<Rightarrow> string" where
  "extractLevel aqiCard =
     (let level = firstText (findAll (\<lambda>n. isTag ''p'' n \<and> hasClass ''font-body-l-medium'' n) aqiCard)
      in if level = [] then firstText (findAll isLevelText aqiCard) else level)"

subsection \<open>The main pollutant\<close>

text \<open>\<open>\d+\.?\d*\<close>, the number of every value pattern.\<close>

definition rnumber :: regex where
  "rnumber = RSeq (rplus rdigit) (RSeq (ropt (RChar (\<lambda>c. c = CHR ''.''))) (RStar rdigit))"

text \<open>\<open>/^\d+\.?\d*\s*(\<mu>g|mg)/i\<close>\<close>

definition valueShapeRegex :: regex where
  "valueShapeRegex =
     RSeq RBol (RSeq rnumber (RSeq (RStar rspace)
       (RGroup 1 (RAlt (rlitI microgram) (rlitI ''mg'')))))"

text \<open>\<open>/(\d+\.?\d*)\s*(\<mu>g\/m\<^sup>3|\<mu>g|mg\/m\<^sup>3)/i\<close>\<close>

definition mainUnits :: regex where
  "mainUnits = RAlt (rlitI defaultUnit) (RAlt (rlitI microgram) (rlitI (''mg/m'' @ [CHR 0xB3])))"

definition mainValueRegex :: regex where
  "mainValueRegex = RSeq (RGroup 1 rnumber) (RSeq (RStar rspace) (RGroup 2 mainUnits))"

text \<open>\<open>/Main pollutant[:\s]+([A-Z0-9.]+)/i\<close>\<close>

definition mainNameRegex :: regex where
  "mainNameRegex =
     RSeq (rlitI ''Main pollutant'')
       (RSeq (rplus (RChar (\<lambda>c. c = CHR '':'' \<or> isWhiteSpace c)))
          (RGroup 1 (rplus (RChar (\<lambda>c. isUpper c \<or> isLower c \<or> isDigit c \<or> c = CHR ''.'')))))"

text \<open>\<open>/Main pollutant[^]*?(\d+\.?\d*)\s*(\<mu>g\/m\<^sup>3|\<mu>g|mg\/m\<^sup>3)/i\<close>\<close>

definition mainNearRegex :: regex where
  "mainNearRegex =
     RSeq (rlitI ''Main pollutant'') (RSeq (RStarLazy (RChar (\<lambda>c. True))) mainValueRegex)"

text \<open>The variables \<open>mainName\<close>, \<open>mainValue\<close>, \<open>mainUnit\<close>.\<close>

definition isMainRow :: "node \<Rightarrow> bool" where
  "isMainRow el =
     (isTag ''div'' el \<and> hasClass ''font-body-m-medium'' el
      \<and> includes_str (textOf el) ''Main pollutant'')"

definition isPollutantNameP :: "node \<Rightarrow> bool" where
  "isPollutantNameP p =
     (let text = trim (textOf p)
      in text \<noteq> [] \<and> \<not> includes_str (toLowerCase text) ''main pollutant''
         \<and> \<not> regexTest valueShapeRegex text \<and> length text < 20)"

definition isValueP :: "node \<Rightarrow> bool" where
  "isValueP p = (let text = trim (textOf p) in text \<noteq> [] \<and> regexTest valueShapeRegex text)"

text \<open>Strategy 1: the row \<open>div.font-body-m-medium\<close> that holds "Main pollutant".\<close>

definition mainFromRow :: "node \<Rightarrow> MainPollutant \<Rightarrow> MainPollutant" where
  "mainFromRow aqiCard m =
     (case findAll isMainRow aqiCard of
        [] \<Rightarrow> m
      | mainRow # _ \<Rightarrow>
          (let mainTexts = findAll (isTag ''p'') mainRow;
               m1 = (case filter isPollutantNameP mainTexts of
                       [] \<Rightarrow> m
                     | pollutantNameP # _ \<Rightarrow> m\<lparr>mp_name := trim (textOf pollutantNameP)\<rparr>)
           in case filter isValueP mainTexts of
                valueP # _ \<Rightarrow>
                  (case splitWs (trim (textOf valueP)) of
                     [] \<Rightarrow> m1
                   | mainValueNumberPart # mainUnitParts \<Rightarrow>
                       m1\<lparr>mp_value := parseFloat (replaceFirstChar CHR '','' CHR ''.'' mainValueNumberPart),
                          mp_unit := (if joinWith '' '' mainUnitParts \<noteq> []
                                      then joinWith '' '' mainUnitParts else defaultUnit)\<rparr>)
              | [] \<Rightarrow>
                  (case regexExec mainValueRegex (textOf mainRow) of
                     None \<Rightarrow> m1
                   | Some (i, len, caps) \<Rightarrow>
                       m1\<lparr>mp_value := parseFloat (replaceFirstChar CHR '','' CHR ''.'' (groupOf 1 caps)),
                          mp_unit := (if groupOf 2 caps \<noteq> [] then groupOf 2 caps
                                      else defaultUnit)\<rparr>)))"

text \<open>Strategy 2: the text of the whole card, when the name or the value is still missing.\<close>

definition mainFromCardText :: "node \<Rightarrow> MainPollutant \<Rightarrow> MainPollutant" where
  "mainFromCardText aqiCard m =
     (if mp_name m = [] \<or> \<not> truthyNum (mp_value m)
      then (let allText = textOf aqiCard
            in if includes_str allText ''Main pollutant''
               then (let m1 = (case regexExec mainNameRegex allText of
                                 None \<Rightarrow> m
                               | Some (i, len, caps) \<Rightarrow> m\<lparr>mp_name := groupOf 1 caps\<rparr>)
                     in case regexExec mainNearRegex allText of
                          None \<Rightarrow> m1
                        | Some (i, len, caps) \<Rightarrow>
                            m1\<lparr>mp_value := parseFloat (replaceFirstChar CHR '','' CHR ''.'' (groupOf 1 caps)),
                               mp_unit := (if groupOf 2 caps \<noteq> [] then groupOf 2 caps
                                           else defaultUnit)\<rparr>)
               else m)
      else m)"

text \<open>The last block: the first pollutant of the table, or the fixed fallback.\<close>

definition mainFromPollutants :: "IQAirPollutant list \<Rightarrow> MainPollutant \<Rightarrow> MainPollutant" where
  "mainFromPollutants ps m =
     (if mp_name m = [] \<or> \<not> truthyNum (mp_value m)
      then (case ps of
              firstPollutant # _ \<Rightarrow>
                \<lparr>mp_name = (if mp_name m \<noteq> [] then mp_name m else p_name firstPollutant),
                 mp_value = (if truthyNum (mp_value m) then mp_value m else p_value firstPollutant),
                 mp_unit = (if mp_unit m \<noteq> [] then mp_unit m else p_unit firstPollutant)\<rparr>
            | [] \<Rightarrow>
                \<lparr>mp_name = (if mp_name m \<noteq> [] then mp_name m else ''PM2.5''),
                 mp_value = (if truthyNum (mp_value m) then mp_value m else Num 0),
                 mp_unit = (if mp_unit m \<noteq> [] then mp_unit m else defaultUnit)\<rparr>)
      else m)"

subsection \<open>The pollutants table\<close>

text \<open>
  \<open>$('table[title="Air pollutants"]')\<close> and, when that is empty, the tables whose title
  holds "pollutant"; then \<open>pollutantsTable.find("tbody tr")\<close>.
\<close>

definition isAirPollutantsTable :: "node \<Rightarrow> bool" where
  "isAirPollutantsTable el = (isTag ''table'' el \<and> attr ''title'' el = Some ''Air pollutants'')"

definition isPollutantTitled :: "node \<Rightarrow> bool" where
  "isPollutantTitled el =
     (isTag ''table'' el
      \<and> (case attr ''title'' el of
           None \<Rightarrow> False
         | Some title \<Rightarrow> title \<noteq> [] \<and> includes_str (toLowerCase title) ''pollutant''))"

definition pollutantRows :: "node \<Rightarrow> node list" where
  "pollutantRows doc =
     (if findAll isAirPollutantsTable doc \<noteq> []
      then findChain [isAirPollutantsTable, isTag ''tbody'', isTag ''tr''] doc
      else findChain [isPollutantTitled, isTag ''tbody'', isTag ''tr''] doc)"

text \<open>\<open>s.replace(sub, "")\<close> for a string \<open>sub\<close>: its first occurrence is cut out.\<close>

fun removeFirst :: "string \<Rightarrow> string \<Rightarrow> string" where
  "removeFirst sub [] = []"
| "removeFirst sub (c # cs) =
     (if startsWith (c # cs) sub then drop (length sub) (c # cs) else c # removeFirst sub cs)"

definition isGrayDiv :: "node \<Rightarrow> bool" where
  "isGrayDiv el = (isTag ''div'' el \<and> hasClass ''text-gray-500'' el)"

definition hasPollutantCode :: "node \<Rightarrow> bool" where
  "hasPollutantCode el =
     (let text = trim (textOf el)
      in text \<noteq> []
         \<and> (includes_str text ''PM2.5'' \<or> includes_str text ''PM10'' \<or> includes_str text ''O3''
            \<or> includes_str text ''NO2'' \<or> includes_str text ''SO2'' \<or> includes_str text ''CO''))"

text \<open>\<open>nameDiv\<close>: \<open>btn.find("div").has("div.text-gray-500").first()\<close>, else the first \<open>div\<close> whose text holds a pollutant code.\<close>

definition nameDivOf :: "node \<Rightarrow> node option" where
  "nameDivOf btn =
     (case filter (\<lambda>d. findAll isGrayDiv d \<noteq> []) (findAll (isTag ''div'') btn) of
        d # _ \<Rightarrow> Some d
      | [] \<Rightarrow>
          (case filter hasPollutantCode (findAll (isTag ''div'') btn) of
             d # _ \<Rightarrow> Some d
           | [] \<Rightarrow> None))"

text \<open>\<open>/(PM2\.5|PM10|O3|NO2|SO2|CO)/\<close>\<close>

definition codeRegex :: regex where
  "codeRegex =
     RGroup 1 (RAlt (rlit ''PM2.5'') (RAlt (rlit ''PM10'') (RAlt (rlit ''O3'')
       (RAlt (rlit ''NO2'') (RAlt (rlit ''SO2'') (rlit ''CO''))))))"

text \<open>\<open>/(\d+\.?\d*)\s*(\<mu>g\/m\<^sup>3|\<mu>g|mg\/m\<^sup>3|ppm|ppb)/i\<close>\<close>

definition rowValueRegex :: regex where
  "rowValueRegex =
     RSeq (RGroup 1 rnumber) (RSeq (RStar rspace)
       (RGroup 2 (RAlt (rlitI defaultUnit) (RAlt (rlitI microgram)
          (RAlt (rlitI (''mg/m'' @ [CHR 0xB3])) (RAlt (rlitI ''ppm'') (rlitI ''ppb'')))))))"

definition descriptionOf :: "node \<Rightarrow> string" where
  "descriptionOf nameDiv = firstText (findAll isGrayDiv nameDiv)"

definition shortNameOf :: "node \<Rightarrow> string" where
  "shortNameOf nameDiv =
     (let fullText = trim (textOf nameDiv);
          name = trim (removeFirst (descriptionOf nameDiv) fullText)
      in if 10 < length name
         then (case regexExec codeRegex name of
                 Some (i, len, caps) \<Rightarrow> groupOf 1 caps
               | None \<Rightarrow> (case splitWs name of w # _ \<Rightarrow> w | [] \<Rightarrow> []))
         else name)"

text \<open>\<open>value\<close> and \<open>unit\<close> of a row, by the three strategies.\<close>

definition valueAndUnit :: "node \<Rightarrow> node \<Rightarrow> jsnum \<times> string" where
  "valueAndUnit tr btn =
     (let valueSpans = findAll (\<lambda>n. isTag ''span'' n \<and> hasClass ''font-body-m-medium'' n) btn
      in if 2 \<le> length valueSpans
         then (let valueText = trim (textOf (valueSpans ! 0));
                   unitText = trim (textOf (valueSpans ! 1))
               in (parseFloat (replaceFirstChar CHR '','' CHR ''.'' valueText),
                   if unitText \<noteq> [] then unitText else defaultUnit))
         else (case regexExec rowValueRegex (textOf btn) of
                 Some (i, len, caps) \<Rightarrow>
                   (parseFloat (replaceFirstChar CHR '','' CHR ''.'' (groupOf 1 caps)),
                    if groupOf 2 caps \<noteq> [] then groupOf 2 caps else defaultUnit)
               | None \<Rightarrow>
                   (case regexExec rowValueRegex (textOf tr) of
                      Some (i, len, caps) \<Rightarrow>
                        (parseFloat (replaceFirstChar CHR '','' CHR ''.'' (groupOf 1 caps)),
                         if groupOf 2 caps \<noteq> [] then groupOf 2 caps else defaultUnit)
                    | None \<Rightarrow> (Num 0, defaultUnit))))"

text \<open>
  What a row yields before the last test: name, description, value and unit; \<open>None\<close>
  where the callback has returned already (no button, no \<open>nameDiv\<close>).
\<close>

definition rowFields :: "node \<Rightarrow> (string \<times> string \<times> jsnum \<times> string) option" where
  "rowFields tr =
     (case findAll (isTag ''button'') tr of
        [] \<Rightarrow> None
      | btn # _ \<Rightarrow>
          (case nameDivOf btn of
             None \<Rightarrow> None
           | Some nameDiv \<Rightarrow>
               Some (shortNameOf nameDiv, descriptionOf nameDiv,
                     fst (valueAndUnit tr btn), snd (valueAndUnit tr btn))))"

text \<open>\<open>if (!name || Number.isNaN(value) || value === 0) return;\<close> and the push.\<close>

definition pollutantOfRow :: "node \<Rightarrow> IQAirPollutant option" where
  "pollutantOfRow tr =
     (case rowFields tr of
        None \<Rightarrow> None
      | Some (name, description, v, unit) \<Rightarrow>
          if name = [] \<or> v = NaN \<or> v = Num 0 then None
          else Some \<lparr>p_name = name, p_description = description, p_value = v, p_unit = unit\<rparr>)"

definition extractPollutants :: "node \<Rightarrow> IQAirPollutant list" where
  "extractPollutants doc = List.map_filter pollutantOfRow (pollutantRows doc)"

subsection \<open>The details of a city\<close>

text \<open>All that \<open>fetchIQAirCityDetailsByName\<close> does with the parsed page and \<open>baseInfo\<close>.\<close>

definition cityDetailsFromPage :: "node \<Rightarrow> IQAirCityRanking \<Rightarrow> error + IQAirCityDetails" where
  "cityDetailsFromPage doc baseInfo =
     (case findAll isAqiCard doc of
        [] \<Rightarrow> Inl AqiCardNotFound
      | aqiCard # _ \<Rightarrow>
          (let parsedAqi = extractAqi aqiCard (aqi baseInfo);
               parsedLevel = extractLevel aqiCard;
               main = mainFromCardText aqiCard
                        (mainFromRow aqiCard
                           \<lparr>mp_name = [], mp_value = Num 0, mp_unit = defaultUnit\<rparr>);
               found = extractPollutants doc
           in Inr \<lparr>rank = rank baseInfo,
                   city = city baseInfo,
                   countrySlug = countrySlug baseInfo,
                   aqi = parsedAqi,
                   url = url baseInfo,
                   level = parsedLevel,
                   mainPollutant = mainFromPollutants found main,
                   pollutants = found\<rparr>))"

text \<open>\<open>fetchPage\<close> is the request for the city page, by URL.\<close>

definition fetchIQAirCityDetailsByName ::
  "(string \<Rightarrow> jsval list option fetched) \<Rightarrow> (string \<Rightarrow> node fetched) \<Rightarrow> string
     \<Rightarrow> error + IQAirCityDetails option" where
  "fetchIQAirCityDetailsByName fetchSearch fetchPage cityName =
     (case fetchIQAirCityByName fetchSearch cityName of
        Inl e \<Rightarrow> Inl e
      | Inr None \<Rightarrow> Inr None
      | Inr (Some baseInfo) \<Rightarrow>
          (case fetchPage (url baseInfo) of
             NotOk status statusText \<Rightarrow> Inl (CityFetchFailed status statusText)
           | Body doc \<Rightarrow>
               (case cityDetailsFromPage doc baseInfo of
                  Inl e \<Rightarrow> Inl e
                | Inr details \<Rightarrow> Inr (Some details))))"

section \<open>Auxiliary definitions and example inputs\<close>

text \<open>
  The key the comparator of the sort orders by: depth 3 before depth 2, then the larger
  followers count first; and the depths a collected URL can have.
\<close>

definition prio :: "IQAirSearchResult \<Rightarrow> nat \<times> rat" where
  "prio r = (if urlPartCount (sr_url r) = 3 then 0 else 1, - sr_followersCount r)"

definition cityDepth :: "IQAirSearchResult \<Rightarrow> bool" where
  "cityDepth r = (urlPartCount (sr_url r) = 2 \<or> urlPartCount (sr_url r) = 3)"

text \<open>Arrays of the search endpoint and the records reconstructed from them.\<close>

definition sortData :: "jsval list" where
  "sortData = [JStr ''/india/delhi'', JNum 150, JStr ''/india/delhi/new-delhi'', JNum 200,
               JStr ''/india/goa'', JStr ''/india/goa/panaji'', JNum 900]"







text \<open>Documents: a ranking page with rows that parse and rows that do not, and city pages.\<close>

definition elem :: "string \<Rightarrow> node list \<Rightarrow> node" where
  "elem t cs = Element t [] cs"

definition leaf :: "string \<Rightarrow> string \<Rightarrow> node" where
  "leaf t s = Element t [] [Text s]"

definition classed :: "string \<Rightarrow> string \<Rightarrow> node list \<Rightarrow> node" where
  "classed t c cs = Element t [(''class'', c)] cs"

definition rankingRow :: "string \<Rightarrow> string \<Rightarrow> string \<Rightarrow> string \<Rightarrow> node" where
  "rankingRow r c a h =
     elem ''tr'' [leaf ''th'' r,
                  elem ''td'' [Element ''a'' [(''href'', h)] [leaf ''p'' c]],
                  elem ''td'' [leaf ''p'' a]]"

definition rankingHead :: node where
  "rankingHead = elem ''thead'' [elem ''tr'' [leaf ''th'' ''#'', leaf ''th'' ''Cities'', leaf ''th'' ''US AQI'']]"

definition lahoreRow :: node where
  "lahoreRow = rankingRow ''1'' ''Lahore'' ''187'' ''/us/pakistan/punjab/lahore''"

definition ghostRow :: node where
  "ghostRow = rankingRow ''2'' ''Ghost'' ''n/a'' ''/us/nowhere/ghost''"






definition otherTableDoc :: node where
  "otherTableDoc =
     elem ''html'' [elem ''body'' [elem ''table''
       [elem ''thead'' [elem ''tr'' [leaf ''th'' ''#'', leaf ''th'' ''Countries'', leaf ''th'' ''AQI'']],
        elem ''tbody'' [lahoreRow]]]]"

definition ghostDoc :: node where
  "ghostDoc =
     elem ''html'' [elem ''body'' [elem ''table'' [rankingHead, elem ''tbody'' [ghostRow]]]]"

definition examplePathname :: "string \<Rightarrow> string option" where
  "examplePathname u =
     (if startsWith u ''https://www.iqair.com'' then Some (drop 21 u) else None)"


definition delhi :: IQAirCityRanking where
  "delhi = \<lparr>rank = 2, city = ''Delhi'', countrySlug = ''india'', aqi = 172,
            url = ''https://www.iqair.com/us/india/delhi/delhi''\<rparr>"

text \<open>The rows that parse, in document order, each with its index among the body rows.\<close>

fun parsedFrom :: "(string \<Rightarrow> string option) \<Rightarrow> nat \<Rightarrow> node list \<Rightarrow> IQAirCityRanking list" where
  "parsedFrom pathnameOf index [] = []"
| "parsedFrom pathnameOf index (row # rows) =
     (case parseRankingRow pathnameOf index row of
        None \<Rightarrow> parsedFrom pathnameOf (Suc index) rows
      | Some r \<Rightarrow> r # parsedFrom pathnameOf (Suc index) rows)"

definition tehran :: IQAirCityRanking where
  "tehran = \<lparr>rank = 0, city = ''Tehran'', countrySlug = ''iran'', aqi = 50,
             url = ''https://www.iqair.com/us/iran/tehran/tehran''\<rparr>"

definition noCardDoc :: node where
  "noCardDoc = elem ''html'' [elem ''body'' [classed ''div'' ''header'' [leaf ''p'' ''157'']]]"

text \<open>A card with a number in a \<open>p\<close> and no element whose text holds "AQI".\<close>

definition numberCard :: node where
  "numberCard = classed ''div'' ''aqi-box-shadow'' [leaf ''p'' ''120'']"

definition numberDoc :: node where
  "numberDoc = elem ''html'' [elem ''body'' [numberCard]]"

text \<open>What each strategy for the AQI finds in the card, taken on its own.\<close>

definition labelStrategy :: "node \<Rightarrow> int option" where
  "labelStrategy aqiCard =
     (case findAll isAqiLabel aqiCard of
        [] \<Rightarrow> None
      | aqiLabelDiv # _ \<Rightarrow>
          (case filter (\<lambda>el. plausibleAqi el \<noteq> None) (findAll (isTag ''p'') aqiLabelDiv) of
             [] \<Rightarrow> None
           | p # _ \<Rightarrow> plausibleAqi p))"

definition maxStrategy :: "node \<Rightarrow> int option" where
  "maxStrategy aqiCard =
     (case List.map_filter plausibleAqi (findAll (isTag ''p'') aqiCard) of
        [] \<Rightarrow> None
      | n # ns \<Rightarrow> Some (fold max ns n))"

definition regexStrategy :: "node \<Rightarrow> int option" where
  "regexStrategy aqiCard =
     (case regexExec aqiRegex (textOf aqiCard) of
        None \<Rightarrow> None
      | Some (i, len, caps) \<Rightarrow> parseInt (groupOf 1 caps))"

definition pollutantRow :: "string \<Rightarrow> string \<Rightarrow> string \<Rightarrow> string \<Rightarrow> node" where
  "pollutantRow n d v u =
     elem ''tr'' [elem ''td'' [elem ''button''
       [elem ''div'' [elem ''div'' [Text n, classed ''div'' ''text-gray-500'' [Text d]]],
        classed ''span'' ''font-body-m-medium'' [Text v],
        classed ''span'' ''font-body-m-medium'' [Text u]]]]"

definition textRow :: "string \<Rightarrow> node" where
  "textRow t = elem ''tr'' [elem ''td'' [elem ''button'' [elem ''div'' [Text t]]]]"

definition fineRow :: node where
  "fineRow = pollutantRow ''PM2.5'' ''Fine particles'' ''65,5'' defaultUnit"

definition zeroRow :: node where
  "zeroRow = pollutantRow ''PM10'' ''Coarse particles'' ''0'' defaultUnit"

definition nanRow :: node where
  "nanRow = pollutantRow ''O3'' ''Ozone'' ''n/a'' defaultUnit"

definition noNumberRow :: node where
  "noNumberRow = textRow (''PM2.5 - '' @ defaultUnit)"

definition unnamedRow :: node where
  "unnamedRow = pollutantRow [] ''Carbon monoxide'' ''12'' ''ppm''"

definition tehranCard :: node where
  "tehranCard =
     classed ''div'' ''card aqi-bg-red''
       [elem ''div'' [leaf ''p'' ''US AQI'', leaf ''p'' ''157''],
        classed ''p'' ''font-body-l-medium'' [Text ''Unhealthy''],
        classed ''div'' ''font-body-m-medium''
          [leaf ''p'' ''Main pollutant:'', leaf ''p'' ''PM2.5'', leaf ''p'' (''65.5 '' @ defaultUnit)]]"

definition tehranDoc :: node where
  "tehranDoc =
     elem ''html'' [elem ''body''
       [tehranCard,
        Element ''table'' [(''title'', ''Air pollutants'')]
          [elem ''tbody'' [fineRow, zeroRow, nanRow, noNumberRow, unnamedRow]]]]"

definition finePollutant :: IQAirPollutant where
  "finePollutant = \<lparr>p_name = ''PM2.5'', p_description = ''Fine particles'',
                     p_value = Num (131 / 2), p_unit = defaultUnit\<rparr>"

definition tehranDetails :: IQAirCityDetails where
  "tehranDetails =
     \<lparr>rank = 0, city = ''Tehran'', countrySlug = ''iran'', aqi = 157,
      url = ''https://www.iqair.com/us/iran/tehran/tehran'',
      level = ''Unhealthy'',
      mainPollutant = \<lparr>mp_name = ''PM2.5'', mp_value = Num (131 / 2), mp_unit = defaultUnit\<rparr>,
      pollutants = [finePollutant]\<rparr>"

definition numberDetails :: IQAirCityDetails where
  "numberDetails =
     \<lparr>rank = 0, city = ''Tehran'', countrySlug = ''iran'', aqi = 50,
      url = ''https://www.iqair.com/us/iran/tehran/tehran'',
      level = [],
      mainPollutant = \<lparr>mp_name = ''PM2.5'', mp_value = Num 0, mp_unit = defaultUnit\<rparr>,
      pollutants = []\<rparr>"

text \<open>Two records in one array, each with its own AQI pair before its URL.\<close>

definition twoCityData :: "jsval list" where
  "twoCityData =
     [JNum 85, JBool False, JStr ''/uzbekistan/toshkent-shahri/tashkent'',
      JNum 42, JBool True, JStr ''/uzbekistan/samarqand/samarkand'']"

text \<open>The test of the backward loop for an AQI pair at index \<open>j\<close>.\<close>

definition aqiPairAt :: "jsval list \<Rightarrow> nat \<Rightarrow> (rat \<times> bool) option" where
  "aqiPairAt data j =
     (case getAt data j of
        JNum x \<Rightarrow>
          if 0 < x \<and> x < 600
          then (case getAt data (j + 1) of JBool b \<Rightarrow> Some (x, b) | _ \<Rightarrow> None)
          else None
      | _ \<Rightarrow> None)"

section \<open>Properties\<close>

subsection \<open>Strings\<close>




lemma parseInt_Nil: "parseInt [] = None"
  by (simp add: parseInt_def)


subsection \<open>The order of the reconstructed results\<close>

lemma compareResults_prio:
  "cityDepth a \<Longrightarrow> cityDepth b \<Longrightarrow> (compareResults a b \<le> 0) = (prio a \<le> prio b)"
  by (auto simp: compareResults_def prio_def cityDepth_def Let_def)

lemma insertBy_insort:
  "cityDepth x \<Longrightarrow> \<forall>y\<in>set ys. cityDepth y \<Longrightarrow>
     insertBy compareResults x ys = insort_key prio x ys"
  by (induction ys) (simp_all add: compareResults_prio)

lemma sortBy_sort_key:
  "\<forall>x\<in>set xs. cityDepth x \<Longrightarrow> sortBy compareResults xs = sort_key prio xs"
proof (induction xs)
  case Nil
  then show ?case by (simp add: sortBy_def)
next
  case (Cons x xs)
  then have "sortBy compareResults xs = sort_key prio xs" by simp
  moreover have "\<forall>y\<in>set (sort_key prio xs). cityDepth y" using Cons.prems by simp
  ultimately show ?case using Cons.prems
    by (simp add: sortBy_def insertBy_insort sort_key_def)
qed

lemma scanStep_urls:
  "\<forall>r\<in>set (snd acc). isCityUrl (sr_url r) \<Longrightarrow>
     \<forall>r\<in>set (snd (scanStep data acc i)). isCityUrl (sr_url r)"
  by (auto simp: scanStep_def recordAt_def Let_def split: jsval.splits)

lemma foldl_scanStep_urls:
  "\<forall>r\<in>set (snd acc). isCityUrl (sr_url r) \<Longrightarrow>
     \<forall>r\<in>set (snd (foldl (scanStep data) acc is)). isCityUrl (sr_url r)"
proof (induction "is" arbitrary: acc)
  case Nil
  then show ?case by simp
next
  case (Cons i "is")
  show ?case using Cons.IH [OF scanStep_urls [OF Cons.prems]] by simp
qed

lemma collectResults_cityDepth: "\<forall>r\<in>set (collectResults data). cityDepth r"
  using foldl_scanStep_urls [of "([], [])" data "[0 ..< length data]"]
  by (auto simp: collectResults_def cityDepth_def isCityUrl_def urlPartCount_def)

lemma parse_sort_key: "parseIQAirSearchResponseSimple data = sort_key prio (collectResults data)"
  by (simp add: parseIQAirSearchResponseSimple_def sortBy_sort_key collectResults_cityDepth)

text \<open>
  C7. In the list the Reconstructor returns, a result with a 2-segment URL never stands
  before one with a 3-segment URL; two results of equal depth stand in descending order
  of \<open>followersCount\<close>; and the sort is stable: the results of one depth and one
  followers count keep the order in which the scan found them.
\<close>

theorem reconstructor_order:
  "(\<forall>i j. i < j \<and> j < length (parseIQAirSearchResponseSimple data) \<longrightarrow>
       \<not> (urlPartCount (sr_url (parseIQAirSearchResponseSimple data ! i)) = 2
          \<and> urlPartCount (sr_url (parseIQAirSearchResponseSimple data ! j)) = 3)
       \<and> (urlPartCount (sr_url (parseIQAirSearchResponseSimple data ! i))
            = urlPartCount (sr_url (parseIQAirSearchResponseSimple data ! j))
          \<longrightarrow> sr_followersCount (parseIQAirSearchResponseSimple data ! j)
               \<le> sr_followersCount (parseIQAirSearchResponseSimple data ! i)))
   \<and> (\<forall>d f. filter (\<lambda>r. urlPartCount (sr_url r) = d \<and> sr_followersCount r = f)
               (parseIQAirSearchResponseSimple data)
            = filter (\<lambda>r. urlPartCount (sr_url r) = d \<and> sr_followersCount r = f)
               (collectResults data))"
proof -
  let ?out = "parseIQAirSearchResponseSimple data"
  have out: "?out = sort_key prio (collectResults data)" by (rule parse_sort_key)
  have depth: "\<forall>r\<in>set ?out. cityDepth r"
    using collectResults_cityDepth [of data] by (simp add: out)
  have sorted: "sorted (map prio ?out)" by (simp add: out)
  have order: "\<not> (urlPartCount (sr_url (?out ! i)) = 2 \<and> urlPartCount (sr_url (?out ! j)) = 3)
       \<and> (urlPartCount (sr_url (?out ! i)) = urlPartCount (sr_url (?out ! j))
          \<longrightarrow> sr_followersCount (?out ! j) \<le> sr_followersCount (?out ! i))"
    if "i < j" "j < length ?out" for i j
  proof -
    have "map prio ?out ! i \<le> map prio ?out ! j"
      using sorted that by (simp add: sorted_iff_nth_mono)
    then have le: "prio (?out ! i) \<le> prio (?out ! j)" using that by simp
    have di: "cityDepth (?out ! i)" and dj: "cityDepth (?out ! j)"
      using depth that by simp_all
    show ?thesis using le di dj by (auto simp: prio_def cityDepth_def split: if_splits)
  qed
  have stable: "filter (\<lambda>r. urlPartCount (sr_url r) = d \<and> sr_followersCount r = f) ?out
            = filter (\<lambda>r. urlPartCount (sr_url r) = d \<and> sr_followersCount r = f)
               (collectResults data)" for d f
  proof -
    let ?k = "(if d = 3 then 0 else 1 :: nat, - f)"
    let ?P = "\<lambda>r. urlPartCount (sr_url r) = d \<and> sr_followersCount r = f"
    show ?thesis
    proof (cases "d = 2 \<or> d = 3")
      case True
      have a: "filter ?P ?out = filter (\<lambda>r. prio r = ?k) ?out"
        using depth True by (intro filter_cong) (auto simp: prio_def cityDepth_def)
      have b: "filter ?P (collectResults data) = filter (\<lambda>r. prio r = ?k) (collectResults data)"
        using collectResults_cityDepth [of data] True
        by (intro filter_cong) (auto simp: prio_def cityDepth_def)
      have "filter ?P ?out = filter (\<lambda>r. prio r = ?k) (sort_key prio (collectResults data))"
        using a by (simp only: out)
      also have "\<dots> = filter (\<lambda>r. prio r = ?k) (collectResults data)"
        by (rule sort_key_stable)
      also have "\<dots> = filter ?P (collectResults data)"
        by (simp only: b)
      finally show ?thesis .
    next
      case False
      have a: "filter ?P ?out = []"
        using depth False by (auto simp: filter_empty_conv cityDepth_def)
      have b: "filter ?P (collectResults data) = []"
        using collectResults_cityDepth [of data] False
        by (auto simp: filter_empty_conv cityDepth_def)
      show ?thesis by (simp only: a b)
    qed
  qed
  show ?thesis using order stable by blast
qed

theorem reconstructor_order_witness:
  "sr_followersCount (parseIQAirSearchResponseSimple sortData ! 1)
     \<le> sr_followersCount (parseIQAirSearchResponseSimple sortData ! 0)
   \<and> map sr_url (parseIQAirSearchResponseSimple sortData)
     = [''/india/goa/panaji'', ''/india/delhi/new-delhi'', ''/india/goa'', ''/india/delhi'']
   \<and> map sr_url (collectResults sortData)
     = [''/india/delhi'', ''/india/delhi/new-delhi'', ''/india/goa'', ''/india/goa/panaji'']
   \<and> map sr_followersCount (parseIQAirSearchResponseSimple sortData) = [900, 200, 900, 150]"
proof -
  have urls: "map sr_url (parseIQAirSearchResponseSimple sortData)
     = [''/india/goa/panaji'', ''/india/delhi/new-delhi'', ''/india/goa'', ''/india/delhi'']"
    by code_simp
  have raw: "map sr_url (collectResults sortData)
     = [''/india/delhi'', ''/india/delhi/new-delhi'', ''/india/goa'', ''/india/goa/panaji'']"
    by code_simp
  have fol: "map sr_followersCount (parseIQAirSearchResponseSimple sortData) = [900, 200, 900, 150]"
    by code_simp
  have len: "length (parseIQAirSearchResponseSimple sortData) = 4"
    by code_simp
  have d0: "urlPartCount (sr_url (parseIQAirSearchResponseSimple sortData ! 0)) = 3"
    by code_simp
  have d1: "urlPartCount (sr_url (parseIQAirSearchResponseSimple sortData ! 1)) = 3"
    by code_simp
  have "0 < (1::nat) \<and> 1 < length (parseIQAirSearchResponseSimple sortData)"
    by (simp add: len)
  with reconstructor_order [of sortData] d0 d1
  have "sr_followersCount (parseIQAirSearchResponseSimple sortData ! 1)
     \<le> sr_followersCount (parseIQAirSearchResponseSimple sortData ! 0)"
    by metis
  then show ?thesis using urls raw fol by simp
qed

subsection \<open>The AQI pair of a reconstructed record\<close>

lemma aqiPairAt_pos: "aqiPairAt data j = Some (x, b) \<Longrightarrow> x \<noteq> 0"
  by (auto simp: aqiPairAt_def split: jsval.splits if_splits)

lemma backStep_aqi:
  "(nb_aqi (backStep data st j), nb_estimated (backStep data st j)) =
     (if nb_aqi st = 0
      then (case aqiPairAt data j of
              Some (x, b) \<Rightarrow> (x, b)
            | None \<Rightarrow> (nb_aqi st, nb_estimated st))
      else (nb_aqi st, nb_estimated st))"
  by (auto simp: backStep_def aqiPairAt_def Let_def split: jsval.splits)

lemma foldl_backStep_aqi:
  "(nb_aqi (foldl (backStep data) st js), nb_estimated (foldl (backStep data) st js)) =
     (if nb_aqi st = 0
      then (case List.map_filter (aqiPairAt data) js of
              [] \<Rightarrow> (nb_aqi st, nb_estimated st)
            | (x, b) # _ \<Rightarrow> (x, b))
      else (nb_aqi st, nb_estimated st))"
proof (induction js arbitrary: st)
  case Nil
  then show ?case by (simp add: List.map_filter_simps)
next
  case (Cons j js)
  show ?case
  proof (cases "nb_aqi st = 0")
    case False
    then have "nb_aqi (backStep data st j) = nb_aqi st"
      and "nb_estimated (backStep data st j) = nb_estimated st"
      using backStep_aqi [of data st j] by simp_all
    then show ?thesis using False Cons.IH [of "backStep data st j"] by simp
  next
    case True
    show ?thesis
    proof (cases "aqiPairAt data j")
      case None
      then have "nb_aqi (backStep data st j) = nb_aqi st"
        and "nb_estimated (backStep data st j) = nb_estimated st"
        using backStep_aqi [of data st j] True by simp_all
      then show ?thesis using True None Cons.IH [of "backStep data st j"]
        by (simp add: List.map_filter_simps split: list.splits)
    next
      case (Some xb)
      obtain x b where xb: "xb = (x, b)" by (cases xb)
      have "nb_aqi (backStep data st j) = x" and "nb_estimated (backStep data st j) = b"
        using backStep_aqi [of data st j] True Some xb by simp_all
      moreover have "x \<noteq> 0" using Some xb aqiPairAt_pos by blast
      ultimately show ?thesis using True Some xb Cons.IH [of "backStep data st j"]
        by (simp add: List.map_filter_simps)
    qed
  qed
qed

text \<open>
  The pair the backward loop assigns is the first one of the window in ascending order
  of the index, the one farthest from the URL: the guard \<open>!aqi\<close> closes the
  assignment after the first hit of a loop that runs from \<open>i - 30\<close> up to \<open>i - 1\<close>.
\<close>

lemma searchBackwards_first_pair:
  "(nb_aqi (searchBackwards data i), nb_estimated (searchBackwards data i)) =
     (case List.map_filter (aqiPairAt data) [i - 30 ..< i] of
        [] \<Rightarrow> (0, False)
      | (x, b) # _ \<Rightarrow> (x, b))"
  using foldl_backStep_aqi [of data nearby0 "[i - 30 ..< i]"]
  by (simp add: searchBackwards_def nearby0_def split: list.splits)

text \<open>
  C4 (a record takes the nearest preceding pair of its window) does not hold of the
  code. In an array with two records, each preceded by its own pair, the second record
  (Samarkand, URL at index 5, its own pair 42/true at index 3) is given the pair of the
  first record, 85/false, from index 0.
\<close>

theorem aqi_pair_taken_from_far_end:
  "map (\<lambda>r. (sr_name r, sr_aqi r, sr_estimated r)) (parseIQAirSearchResponseSimple twoCityData)
     = [(''Tashkent'', 85, False), (''Samarkand'', 85, False)]
   \<and> aqiPairAt twoCityData 3 = Some (42, True)
   \<and> getAt twoCityData 5 = JStr ''/uzbekistan/samarqand/samarkand''"
  by code_simp

subsection \<open>The resolver\<close>







text \<open>
  C9. \<open>fetchIQAirCityByName\<close> fails with "City name is required" for a name that is
  empty or all white space, and returns \<open>null\<close> for any other name when the search
  answers and the Reconstructor finds no record in the answer.
\<close>

theorem resolve_validation_and_no_candidates:
  "(trim cityName = [] \<longrightarrow> fetchIQAirCityByName fetchSearch cityName = Inl CityNameRequired)
   \<and> (trim cityName \<noteq> [] \<and> fetchSearch (trim cityName) = Body (Some data)
       \<and> parseIQAirSearchResponseSimple data = []
      \<longrightarrow> fetchIQAirCityByName fetchSearch cityName = Inr None)"
  by (simp add: fetchIQAirCityByName_def searchIQAirCities_def toLowerCase_def)

theorem resolve_validation_and_no_candidates_witness:
  "fetchIQAirCityByName (\<lambda>q. Body (Some [JStr ''routes/search'', JNum 3])) ''   '' = Inl CityNameRequired
   \<and> fetchIQAirCityByName (\<lambda>q. Body (Some [JStr ''routes/search'', JNum 3])) [] = Inl CityNameRequired
   \<and> fetchIQAirCityByName (\<lambda>q. Body (Some [JStr ''routes/search'', JNum 3])) ''atlantis'' = Inr None"
proof -
  let ?f = "\<lambda>q::string. Body (Some [JStr ''routes/search'', JNum 3])"
  have t1: "trim ''   '' = []" by code_simp
  have t2: "trim [] = []" by code_simp
  have t3: "trim ''atlantis'' \<noteq> []" by code_simp
  have p: "parseIQAirSearchResponseSimple [JStr ''routes/search'', JNum 3] = []" by code_simp
  have "fetchIQAirCityByName ?f ''   '' = Inl CityNameRequired"
    using resolve_validation_and_no_candidates [of "''   ''" ?f] t1 by blast
  moreover have "fetchIQAirCityByName ?f [] = Inl CityNameRequired"
    using resolve_validation_and_no_candidates [of "[]" ?f] t2 by blast
  moreover have "fetchIQAirCityByName ?f ''atlantis'' = Inr None"
    using resolve_validation_and_no_candidates [of "''atlantis''" ?f "[JStr ''routes/search'', JNum 3]"] t3 p
    by blast
  ultimately show ?thesis by simp
qed

subsection \<open>The ranking table\<close>

lemma rankingLoop_take:
  "rankingLoop pn limit i rows acc =
     (if limit \<le> int (length acc) then acc
      else acc @ take (nat limit - length acc) (parsedFrom pn i rows))"
proof (induction rows arbitrary: i acc)
  case Nil
  then show ?case by simp
next
  case (Cons row rows)
  show ?case
  proof (cases "limit \<le> int (length acc)")
    case True
    then show ?thesis by simp
  next
    case False
    then have pos: "0 < nat limit - length acc" by linarith
    show ?thesis
    proof (cases "parseRankingRow pn i row")
      case None
      then show ?thesis using False Cons.IH [of "Suc i" acc] by simp
    next
      case (Some r)
      have tk: "take (nat limit - length acc) (r # parsedFrom pn (Suc i) rows)
                = r # take (nat limit - length acc - 1) (parsedFrom pn (Suc i) rows)"
        using pos by (cases "nat limit - length acc") simp_all
      show ?thesis
      proof (cases "limit \<le> int (length acc) + 1")
        case True
        then have "nat limit - length acc - 1 = 0" by linarith
        then show ?thesis using False True Some Cons.IH [of "Suc i" "acc @ [r]"] tk by simp
      next
        case F2: False
        have "nat limit - length (acc @ [r]) = nat limit - length acc - 1" by simp
        then show ?thesis using False F2 Some Cons.IH [of "Suc i" "acc @ [r]"] tk by simp
      qed
    qed
  qed
qed








subsection \<open>The AQI of the city page\<close>

lemma plausibleAqi_Some:
  "plausibleAqi el = Some n \<Longrightarrow> parseInt (trim (textOf el)) = Some n \<and> 0 < n \<and> n \<le> 500"
  by (auto simp: plausibleAqi_def split: option.splits if_splits)

lemma filter_Cons_holds: "filter P xs = y # ys \<Longrightarrow> P y"
  by (metis filter_eq_Cons_iff)

lemma aqiAfterLabel_strategy:
  "aqiAfterLabel aqiCard current =
     (case labelStrategy aqiCard of Some n \<Rightarrow> of_int n | None \<Rightarrow> current)"
proof (cases "findAll isAqiLabel aqiCard")
  case Nil
  then show ?thesis by (simp add: aqiAfterLabel_def labelStrategy_def)
next
  case (Cons labelDiv others)
  show ?thesis
  proof (cases "filter (\<lambda>el. plausibleAqi el \<noteq> None) (findAll (isTag ''p'') labelDiv)")
    case Nil
    then show ?thesis using Cons
      by (simp add: aqiAfterLabel_def labelStrategy_def firstText_def)
  next
    case inner: (Cons p ps)
    have "plausibleAqi p \<noteq> None" using filter_Cons_holds [OF inner] .
    then obtain n where n: "plausibleAqi p = Some n" by auto
    then have pi: "parseInt (trim (textOf p)) = Some n" by (simp add: plausibleAqi_Some)
    then have "trim (textOf p) \<noteq> []" using parseInt_Nil by auto
    then show ?thesis using Cons inner n pi
      by (simp add: aqiAfterLabel_def labelStrategy_def firstText_def)
  qed
qed

lemma labelStrategy_pos: "labelStrategy aqiCard = Some n \<Longrightarrow> 0 < n"
  by (auto simp: labelStrategy_def split: list.splits dest: plausibleAqi_Some)

lemma fold_max_pos: "(0::int) < n \<Longrightarrow> 0 < fold max ns n"
  by (induction ns arbitrary: n) (simp_all add: max_def)

lemma map_filter_Cons_holds: "List.map_filter f xs = y # ys \<Longrightarrow> \<exists>x. f x = Some y"
proof (induction xs)
  case Nil
  then show ?case by (simp add: List.map_filter_simps)
next
  case (Cons x xs)
  then show ?case by (cases "f x") (auto simp: List.map_filter_simps)
qed

lemma maxStrategy_pos: "maxStrategy aqiCard = Some n \<Longrightarrow> 0 < n"
proof -
  assume a: "maxStrategy aqiCard = Some n"
  then obtain m ms where ms: "List.map_filter plausibleAqi (findAll (isTag ''p'') aqiCard) = m # ms"
    and n: "n = fold max ms m"
    by (auto simp: maxStrategy_def split: list.splits)
  obtain x where "plausibleAqi x = Some m" using map_filter_Cons_holds [OF ms] by auto
  then have "0 < m" by (simp add: plausibleAqi_Some)
  then show ?thesis using n fold_max_pos by simp
qed

lemma aqiAfterNumbers_strategy:
  "aqiAfterNumbers aqiCard current =
     (if current = 0
      then (case maxStrategy aqiCard of Some n \<Rightarrow> of_int n | None \<Rightarrow> current)
      else current)"
  by (simp add: aqiAfterNumbers_def maxStrategy_def split: list.splits)

lemma aqiAfterRegex_strategy:
  "aqiAfterRegex aqiCard current =
     (if current = 0
      then (case regexStrategy aqiCard of Some n \<Rightarrow> of_int n | None \<Rightarrow> current)
      else current)"
  by (simp add: aqiAfterRegex_def regexStrategy_def split: option.splits)

lemma extractAqi_cascade:
  "extractAqi aqiCard baseAqi =
     (case labelStrategy aqiCard of
        Some n \<Rightarrow> of_int n
      | None \<Rightarrow>
          if baseAqi \<noteq> 0 then baseAqi
          else (case maxStrategy aqiCard of
                  Some n \<Rightarrow> of_int n
                | None \<Rightarrow> (case regexStrategy aqiCard of Some n \<Rightarrow> of_int n | None \<Rightarrow> 0)))"
proof (cases "labelStrategy aqiCard")
  case (Some n)
  then have "(of_int n :: rat) \<noteq> 0" using labelStrategy_pos by fastforce
  then show ?thesis using Some
    by (simp add: extractAqi_def aqiAfterLabel_strategy aqiAfterNumbers_strategy
        aqiAfterRegex_strategy)
next
  case None
  show ?thesis
  proof (cases "maxStrategy aqiCard")
    case inner: None
    then show ?thesis using None
      by (simp add: extractAqi_def aqiAfterLabel_strategy aqiAfterNumbers_strategy
          aqiAfterRegex_strategy split: option.splits)
  next
    case (Some m)
    then have "(of_int m :: rat) \<noteq> 0" using maxStrategy_pos by fastforce
    then show ?thesis using None Some
      by (simp add: extractAqi_def aqiAfterLabel_strategy aqiAfterNumbers_strategy
          aqiAfterRegex_strategy)
  qed
qed

text \<open>
  C2, as the code has it. With the AQI box found, the AQI of the result is the number
  next to the "AQI" label when there is one; else the AQI of the baseline when that is
  not zero; else the maximum of the plausible numbers of the box; else the number the
  regular expression reads from the text of the box; else zero. Strategies 2 and 3 run
  only when strategy 1 fails and the baseline AQI is zero.
\<close>

theorem aqi_cascade_with_baseline:
  assumes card: "findAll isAqiCard doc = aqiCard # others"
  shows "\<exists>details. cityDetailsFromPage doc baseInfo = Inr details
           \<and> aqi details =
               (case labelStrategy aqiCard of
                  Some n \<Rightarrow> of_int n
                | None \<Rightarrow>
                    if aqi baseInfo \<noteq> 0 then aqi baseInfo
                    else (case maxStrategy aqiCard of
                            Some n \<Rightarrow> of_int n
                          | None \<Rightarrow>
                              (case regexStrategy aqiCard of
                                 Some n \<Rightarrow> of_int n
                               | None \<Rightarrow> 0)))"
  using card by (simp add: cityDetailsFromPage_def Let_def extractAqi_cascade)

theorem aqi_cascade_with_baseline_witness:
  "findAll isAqiCard tehranDoc = [tehranCard]
   \<and> labelStrategy tehranCard = Some 157
   \<and> cityDetailsFromPage tehranDoc tehran = Inr tehranDetails
   \<and> aqi tehranDetails = 157"
proof -
  have card: "findAll isAqiCard tehranDoc = tehranCard # []" by code_simp
  have lab: "labelStrategy tehranCard = Some 157" by code_simp
  have res: "cityDetailsFromPage tehranDoc tehran = Inr tehranDetails" by code_simp
  obtain details where "cityDetailsFromPage tehranDoc tehran = Inr details"
    and "aqi details = 157"
    using aqi_cascade_with_baseline [OF card, of tehran] lab by auto
  then show ?thesis using card lab res by simp
qed

text \<open>
  Counterexample to C2 as stated (the baseline only after all three strategies). A box
  with the number 120 in a \<open>p\<close> and no "AQI" label, for a baseline with AQI 50:
  strategy 1 finds nothing, strategy 2 would find 120, and the result keeps 50.
\<close>

theorem aqi_baseline_before_maximum_counterexample:
  "cityDetailsFromPage numberDoc tehran = Inr numberDetails
   \<and> aqi numberDetails = 50
   \<and> aqi tehran = 50
   \<and> labelStrategy numberCard = None
   \<and> maxStrategy numberCard = Some 120
   \<and> findAll isAqiCard numberDoc = [numberCard]"
  by code_simp

subsection \<open>Missing anchors\<close>

text \<open>
  C6. \<open>fetchIQAirTopCities\<close> fails with "ranking table not found" when no table of
  the document has "Cities" in its second and "AQI" in its third header, and with "no
  rows parsed" when no body row of the qualifying table parses; the details of a city
  fail with "AQI main card not found" when no \<open>div\<close> of the page has the class marker.
  In each case an error is the whole result.
\<close>

theorem missing_anchor_is_fatal:
  "((\<forall>t\<in>set (findAll (isTag ''table'') doc). \<not> isRankingTable t)
      \<longrightarrow> fetchIQAirTopCities pathnameOf (Body doc) limit = Inl RankingTableNotFound)
   \<and> (filter isRankingTable (findAll (isTag ''table'') doc) = table # others
       \<and> parsedFrom pathnameOf 0 (findChain [isTag ''tbody'', isTag ''tr''] table) = []
      \<longrightarrow> fetchIQAirTopCities pathnameOf (Body doc) limit = Inl NoRowsParsed)
   \<and> ((\<forall>d\<in>set (findAll (isTag ''div'') doc). \<not> isAqiCard d)
      \<longrightarrow> cityDetailsFromPage doc baseInfo = Inl AqiCardNotFound)
   \<and> ((\<forall>d\<in>set (findAll (isTag ''div'') doc). \<not> isAqiCard d)
       \<and> fetchIQAirCityByName fetchSearch cityName = Inr (Some baseInfo)
       \<and> fetchPage (url baseInfo) = Body doc
      \<longrightarrow> fetchIQAirCityDetailsByName fetchSearch fetchPage cityName = Inl AqiCardNotFound)"
proof -
  have a: "fetchIQAirTopCities pathnameOf (Body doc) limit = Inl RankingTableNotFound"
    if "\<forall>t\<in>set (findAll (isTag ''table'') doc). \<not> isRankingTable t"
  proof -
    have "filter isRankingTable (findAll (isTag ''table'') doc) = []"
      using that by (simp add: filter_empty_conv)
    then show ?thesis by (simp add: fetchIQAirTopCities_def)
  qed
  have b: "fetchIQAirTopCities pathnameOf (Body doc) limit = Inl NoRowsParsed"
    if "filter isRankingTable (findAll (isTag ''table'') doc) = table # others"
      and "parsedFrom pathnameOf 0 (findChain [isTag ''tbody'', isTag ''tr''] table) = []"
    using that by (simp add: fetchIQAirTopCities_def rankingLoop_take)
  have cards: "findAll isAqiCard doc = []"
    if "\<forall>d\<in>set (findAll (isTag ''div'') doc). \<not> isAqiCard d"
    using that by (auto simp: findAll_def filter_empty_conv isAqiCard_def)
  have c: "cityDetailsFromPage doc baseInfo = Inl AqiCardNotFound"
    if "\<forall>d\<in>set (findAll (isTag ''div'') doc). \<not> isAqiCard d"
    using cards [OF that] by (simp add: cityDetailsFromPage_def)
  have d: "fetchIQAirCityDetailsByName fetchSearch fetchPage cityName = Inl AqiCardNotFound"
    if "\<forall>d\<in>set (findAll (isTag ''div'') doc). \<not> isAqiCard d"
      and "fetchIQAirCityByName fetchSearch cityName = Inr (Some baseInfo)"
      and "fetchPage (url baseInfo) = Body doc"
    using c [OF that(1)] that(2,3) by (simp add: fetchIQAirCityDetailsByName_def)
  show ?thesis using a b c d by blast
qed

theorem missing_anchor_is_fatal_witness:
  "fetchIQAirTopCities examplePathname (Body otherTableDoc) 10 = Inl RankingTableNotFound
   \<and> fetchIQAirTopCities examplePathname (Body ghostDoc) 10 = Inl NoRowsParsed
   \<and> cityDetailsFromPage noCardDoc tehran = Inl AqiCardNotFound"
proof -
  have a: "\<forall>t\<in>set (findAll (isTag ''table'') otherTableDoc). \<not> isRankingTable t"
    by code_simp
  have b: "filter isRankingTable (findAll (isTag ''table'') ghostDoc)
             = elem ''table'' [rankingHead, elem ''tbody'' [ghostRow]] # []
           \<and> parsedFrom examplePathname 0
               (findChain [isTag ''tbody'', isTag ''tr'']
                  (elem ''table'' [rankingHead, elem ''tbody'' [ghostRow]])) = []"
    by code_simp
  have c: "\<forall>d\<in>set (findAll (isTag ''div'') noCardDoc). \<not> isAqiCard d"
    by code_simp
  have "fetchIQAirTopCities examplePathname (Body otherTableDoc) 10 = Inl RankingTableNotFound"
    using missing_anchor_is_fatal [of otherTableDoc examplePathname 10] a by blast
  moreover have "fetchIQAirTopCities examplePathname (Body ghostDoc) 10 = Inl NoRowsParsed"
    using missing_anchor_is_fatal [of ghostDoc examplePathname 10] b by blast
  moreover have "cityDetailsFromPage noCardDoc tehran = Inl AqiCardNotFound"
    using missing_anchor_is_fatal [of noCardDoc _ _ _ _ tehran] c by blast
  ultimately show ?thesis by simp
qed

subsection \<open>The pollutants and the frame of the details\<close>






text \<open>
  C10. With the AQI box found the details are returned, and \<open>rank\<close>, \<open>city\<close>,
  \<open>countrySlug\<close> and \<open>url\<close> are those of the baseline: the ranking part of the
  result is the baseline with at most its \<open>aqi\<close> replaced.
\<close>

theorem details_keep_baseline_fields:
  "(findAll isAqiCard doc \<noteq> []
      \<longrightarrow> (\<exists>details. cityDetailsFromPage doc baseInfo = Inr details))
   \<and> (cityDetailsFromPage doc baseInfo = Inr details
      \<longrightarrow> rank details = rank baseInfo \<and> city details = city baseInfo
          \<and> countrySlug details = countrySlug baseInfo \<and> url details = url baseInfo
          \<and> IQAirCityRanking.truncate details = baseInfo\<lparr>aqi := aqi details\<rparr>)
   \<and> (fetchIQAirCityDetailsByName fetchSearch fetchPage cityName = Inr (Some details)
      \<longrightarrow> (\<exists>base. fetchIQAirCityByName fetchSearch cityName = Inr (Some base)
             \<and> IQAirCityRanking.truncate details = base\<lparr>aqi := aqi details\<rparr>))"
proof -
  have a: "\<exists>details. cityDetailsFromPage doc baseInfo = Inr details"
    if "findAll isAqiCard doc \<noteq> []"
    using that by (cases "findAll isAqiCard doc") (simp_all add: cityDetailsFromPage_def Let_def)
  have b: "rank d = rank b \<and> city d = city b \<and> countrySlug d = countrySlug b \<and> url d = url b
           \<and> IQAirCityRanking.truncate d = b\<lparr>aqi := aqi d\<rparr>"
    if "cityDetailsFromPage page b = Inr d" for page b d
    using that
    by (cases "findAll isAqiCard page")
       (auto simp: cityDetailsFromPage_def Let_def IQAirCityRanking.truncate_def)
  have c: "\<exists>base. fetchIQAirCityByName fetchSearch cityName = Inr (Some base)
             \<and> IQAirCityRanking.truncate details = base\<lparr>aqi := aqi details\<rparr>"
    if "fetchIQAirCityDetailsByName fetchSearch fetchPage cityName = Inr (Some details)"
    using that b
    by (auto simp: fetchIQAirCityDetailsByName_def
        split: sum.splits option.splits fetched.splits)
  show ?thesis using a b c by blast
qed

theorem details_keep_baseline_fields_witness:
  "findAll isAqiCard tehranDoc \<noteq> []
   \<and> cityDetailsFromPage tehranDoc tehran = Inr tehranDetails
   \<and> rank tehranDetails = rank tehran \<and> city tehranDetails = city tehran
   \<and> countrySlug tehranDetails = countrySlug tehran \<and> url tehranDetails = url tehran
   \<and> aqi tehran = 50 \<and> aqi tehranDetails = 157"
proof -
  have card: "findAll isAqiCard tehranDoc \<noteq> []" by code_simp
  have res: "cityDetailsFromPage tehranDoc tehran = Inr tehranDetails" by code_simp
  have "rank tehranDetails = rank tehran \<and> city tehranDetails = city tehran
        \<and> countrySlug tehranDetails = countrySlug tehran \<and> url tehranDetails = url tehran"
    using details_keep_baseline_fields [of tehranDoc tehran tehranDetails] res by blast
  moreover have "aqi tehran = 50 \<and> aqi tehranDetails = 157"
    by (simp add: tehran_def tehranDetails_def)
  ultimately show ?thesis using card res by simp
qed

end
